theory Spec2Isabelle
  imports Main
begin

section \<open>Values shared by the client and the relay\<close>

text \<open>
  A value caught by a JavaScript \<^verbatim>\<open>catch\<close>: an instance of \<^verbatim>\<open>Error\<close> with its
  message, or anything else (\<^verbatim>\<open>err instanceof Error\<close> is false).
\<close>

datatype thrown = ErrorObj string | NonError

text \<open>
  \<^verbatim>\<open>x || fallback\<close> for an optional string \<^verbatim>\<open>x\<close>: \<^verbatim>\<open>undefined\<close> (here \<open>None\<close>) and
  the empty string are falsy, every other string is kept.
\<close>

fun or_else :: "string option \<Rightarrow> string \<Rightarrow> string" where
  "or_else None d = d"
| "or_else (Some m) d = (if m = [] then d else m)"

section \<open>StripeCheckout.tsx: the wrapper that creates the payment intent\<close>

text \<open>
  One \<^verbatim>\<open>fetch\<close> issued by \<^verbatim>\<open>createPaymentIntent\<close>: the URL, the HTTP verb and the two
  fields of the JSON body.
\<close>

record fetch_request =
  req_url :: string
  req_verb :: string
  req_amount :: int
  req_currency :: string

text \<open>
  How the asynchronous tail of \<^verbatim>\<open>createPaymentIntent\<close> can end:
  \<^item> \<open>FetchThrows\<close>: \<^verbatim>\<open>fetch\<close> rejects (transport failure);
  \<^item> \<open>NotOkBody e\<close>: \<^verbatim>\<open>response.ok\<close> is false and the body parses, \<open>e\<close> its
    \<^verbatim>\<open>error\<close> field (\<open>None\<close> when absent);
  \<^item> \<open>NotOkBadJson\<close>: \<^verbatim>\<open>response.ok\<close> is false and \<^verbatim>\<open>response.json()\<close> rejects;
  \<^item> \<open>OkBody cs\<close>: \<^verbatim>\<open>response.ok\<close> is true, \<open>cs\<close> the body's \<^verbatim>\<open>clientSecret\<close>;
  \<^item> \<open>OkBadJson\<close>: \<^verbatim>\<open>response.ok\<close> is true and \<^verbatim>\<open>response.json()\<close> rejects.
\<close>

datatype fetch_outcome =
    FetchThrows thrown
  | NotOkBody "string option"
  | NotOkBadJson thrown
  | OkBody string
  | OkBadJson thrown

text \<open>
  The component: its three \<^verbatim>\<open>useState\<close> cells, the \<^verbatim>\<open>totalAmount\<close> prop, the
  \<^verbatim>\<open>VITE_API_URL\<close> setting, every request sent so far (oldest first) and the
  positions in that log of the requests whose promise has not settled yet.
\<close>

record checkout_state =
  clientSecret :: string
  error :: string
  loading :: bool
  totalAmount :: int
  VITE_API_URL :: "string option"
  requests :: "fetch_request list"
  pending :: "nat list"

definition apiUrl :: "checkout_state \<Rightarrow> string" where
  "apiUrl s = or_else (VITE_API_URL s) ''/api''"

text \<open>
  \<^verbatim>\<open>createPaymentIntent\<close> up to its first \<^verbatim>\<open>await\<close>: \<^verbatim>\<open>setLoading(true)\<close>,
  \<^verbatim>\<open>setError('')\<close>, and the \<^verbatim>\<open>fetch\<close> is sent. The function reads no state before it
  sends.
\<close>

definition createPaymentIntent :: "checkout_state \<Rightarrow> checkout_state" where
  "createPaymentIntent s =
     s\<lparr> loading := True,
        error := [],
        requests := requests s @
          [\<lparr> req_url = apiUrl s @ ''/create-payment-intent'',
             req_verb = ''POST'',
             req_amount = totalAmount s,
             req_currency = ''usd'' \<rparr>],
        pending := pending s @ [length (requests s)] \<rparr>"

text \<open>The \<^verbatim>\<open>catch\<close> clause of \<^verbatim>\<open>createPaymentIntent\<close>.\<close>

fun catch_create :: "thrown \<Rightarrow> string" where
  "catch_create (ErrorObj m) = m"
| "catch_create NonError = ''Failed to initialize payment''"

text \<open>
  \<^verbatim>\<open>createPaymentIntent\<close> after the \<^verbatim>\<open>await\<close>: what the continuation writes for each
  outcome, with the \<^verbatim>\<open>finally\<close> clause. It compares nothing with the request it
  belongs to.
\<close>

fun createPaymentIntent_done :: "fetch_outcome \<Rightarrow> checkout_state \<Rightarrow> checkout_state" where
  "createPaymentIntent_done (OkBody cs) s = s\<lparr> clientSecret := cs, loading := False \<rparr>"
| "createPaymentIntent_done (NotOkBody e) s =
     s\<lparr> error := or_else e ''Failed to create payment intent'', loading := False \<rparr>"
| "createPaymentIntent_done (FetchThrows t) s = s\<lparr> error := catch_create t, loading := False \<rparr>"
| "createPaymentIntent_done (NotOkBadJson t) s = s\<lparr> error := catch_create t, loading := False \<rparr>"
| "createPaymentIntent_done (OkBadJson t) s = s\<lparr> error := catch_create t, loading := False \<rparr>"

text \<open>The body of the \<^verbatim>\<open>useEffect\<close>, run with the current \<^verbatim>\<open>totalAmount\<close>.\<close>

definition useEffect :: "checkout_state \<Rightarrow> checkout_state" where
  "useEffect s =
     (if totalAmount s < 50
      then s\<lparr> error := ''Minimum order amount is $0.50'', loading := False \<rparr>
      else createPaymentIntent s)"

text \<open>The first render: the initial \<^verbatim>\<open>useState\<close> values, then the effect.\<close>

definition mount :: "string option \<Rightarrow> int \<Rightarrow> checkout_state" where
  "mount env a =
     useEffect \<lparr> clientSecret = [], error = [], loading = True, totalAmount = a,
                 VITE_API_URL = env, requests = [], pending = [] \<rparr>"

text \<open>What the component renders: the four \<^verbatim>\<open>return\<close>s, in the source's order.\<close>

datatype checkout_view = LoadingView | ErrorView | NullView | FormView

definition render :: "checkout_state \<Rightarrow> checkout_view" where
  "render s =
     (if loading s then LoadingView
      else if error s \<noteq> [] then ErrorView
      else if clientSecret s = [] then NullView
      else FormView)"

text \<open>
  The events of the component: a re-render with a new \<^verbatim>\<open>totalAmount\<close> (the effect runs
  again only when the dependency changed), a click on "Try Again" (the button exists
  only in the error view, its handler is \<^verbatim>\<open>createPaymentIntent\<close> itself), and the
  settling of the request at position \<open>i\<close> of the log.
\<close>

datatype checkout_event = SetAmount int | RetryClick | Settle nat fetch_outcome

fun checkout_step :: "checkout_event \<Rightarrow> checkout_state \<Rightarrow> checkout_state" where
  "checkout_step (SetAmount a) s =
     (if a = totalAmount s then s else useEffect (s\<lparr> totalAmount := a \<rparr>))"
| "checkout_step RetryClick s =
     (if render s = ErrorView then createPaymentIntent s else s)"
| "checkout_step (Settle i out) s =
     (if i \<in> set (pending s)
      then createPaymentIntent_done out (s\<lparr> pending := removeAll i (pending s) \<rparr>)
      else s)"

fun checkout_run :: "checkout_event list \<Rightarrow> checkout_state \<Rightarrow> checkout_state" where
  "checkout_run [] s = s"
| "checkout_run (e # es) s = checkout_run es (checkout_step e s)"

text \<open>
  Every request in the log is a POST to the create-payment-intent route under the
  configured API base.
\<close>

definition only_create_requests :: "checkout_state \<Rightarrow> bool" where
  "only_create_requests s =
     list_all (\<lambda>r. req_url r = apiUrl s @ ''/create-payment-intent'' \<and> req_verb r = ''POST'')
       (requests s)"

section \<open>CheckoutForm.tsx: the form that confirms the payment\<close>

text \<open>The \<^verbatim>\<open>PaymentStatus\<close> type of types.ts: four string literals.\<close>

datatype PaymentStatus = idle | processing | succeeded | failed

text \<open>
  What \<^verbatim>\<open>await stripe.confirmPayment(...)\<close> gives back. \<open>Resolves e p\<close>: the promise
  resolves to \<^verbatim>\<open>{error, paymentIntent}\<close>, where \<open>e\<close> is \<open>None\<close> when \<^verbatim>\<open>error\<close> is
  undefined and otherwise holds the error's optional \<^verbatim>\<open>message\<close>, and \<open>p\<close> is \<open>None\<close>
  when \<^verbatim>\<open>paymentIntent\<close> is undefined and otherwise holds its \<^verbatim>\<open>status\<close>.
  \<open>Rejects t\<close>: the promise rejects with \<open>t\<close>.
\<close>

datatype confirm_outcome =
    Resolves "string option option" "string option"
  | Rejects thrown

text \<open>
  The component: the two hooks (\<open>True\<close> when \<^verbatim>\<open>useStripe()\<close>, \<^verbatim>\<open>useElements()\<close> gave
  an instance, \<open>False\<close> when null), the two \<^verbatim>\<open>useState\<close> cells, whether the optional
  \<^verbatim>\<open>onSuccess\<close> prop is given, and three counters of what the component did: the calls
  of \<^verbatim>\<open>stripe.confirmPayment\<close> made, those of them not settled yet, and the calls of
  \<^verbatim>\<open>onSuccess\<close>. The callback is taken to return normally, as the one StripeCheckout
  passes does. \<open>button_disabled\<close> is the \<^verbatim>\<open>disabled\<close> attribute of the pay button on the
  page, as the last render left it: the setters of a handler change the \<^verbatim>\<open>useState\<close>
  cells, and the page follows only when React renders again.
\<close>

record form_state =
  stripe :: bool
  elements :: bool
  paymentStatus :: PaymentStatus
  message :: string
  onSuccess :: bool
  confirm_calls :: nat
  confirm_pending :: nat
  onSuccess_calls :: nat
  button_disabled :: bool

text \<open>
  \<^verbatim>\<open>handleSubmit\<close> up to its \<^verbatim>\<open>await\<close>: the not-ready guard, then the two setters and
  the call of \<^verbatim>\<open>stripe.confirmPayment\<close>. The function does not read \<^verbatim>\<open>paymentStatus\<close>.
\<close>

definition handleSubmit :: "form_state \<Rightarrow> form_state" where
  "handleSubmit s =
     (if \<not> stripe s \<or> \<not> elements s
      then s\<lparr> message := ''Stripe is not loaded. Please refresh the page.'' \<rparr>
      else s\<lparr> paymentStatus := processing,
              message := [],
              confirm_calls := Suc (confirm_calls s),
              confirm_pending := Suc (confirm_pending s) \<rparr>)"

text \<open>The \<^verbatim>\<open>catch\<close> clause of \<^verbatim>\<open>handleSubmit\<close>.\<close>

fun catch_submit :: "thrown \<Rightarrow> string" where
  "catch_submit (ErrorObj m) = m"
| "catch_submit NonError = ''An unexpected error occurred''"

text \<open>
  \<^verbatim>\<open>handleSubmit\<close> after the \<^verbatim>\<open>await\<close>: the \<^verbatim>\<open>if (error) ... else if (paymentIntent &&
  paymentIntent.status === 'succeeded') ...\<close> dispatch, which has no final \<^verbatim>\<open>else\<close>, and
  the \<^verbatim>\<open>catch\<close>.
\<close>

fun handleSubmit_done :: "confirm_outcome \<Rightarrow> form_state \<Rightarrow> form_state" where
  "handleSubmit_done (Resolves (Some m) p) s =
     s\<lparr> message := or_else m ''An error occurred during payment'', paymentStatus := failed \<rparr>"
| "handleSubmit_done (Resolves None (Some st)) s =
     (if st = ''succeeded''
      then s\<lparr> paymentStatus := succeeded,
              message := ''Payment successful! Thank you for your purchase.'',
              onSuccess_calls := (if onSuccess s then Suc (onSuccess_calls s)
                                  else onSuccess_calls s) \<rparr>
      else s)"
| "handleSubmit_done (Resolves None None) s = s"
| "handleSubmit_done (Rejects t) s = s\<lparr> message := catch_submit t, paymentStatus := failed \<rparr>"

definition isProcessing :: "form_state \<Rightarrow> bool" where
  "isProcessing s = (paymentStatus s = processing)"

definition isSucceeded :: "form_state \<Rightarrow> bool" where
  "isSucceeded s = (paymentStatus s = succeeded)"

text \<open>The \<^verbatim>\<open>disabled\<close> attribute of the pay button, the form's only submit control.\<close>

definition pay_button_disabled :: "form_state \<Rightarrow> bool" where
  "pay_button_disabled s = (\<not> stripe s \<or> isProcessing s \<or> isSucceeded s)"

text \<open>A render: the page takes the button's \<^verbatim>\<open>disabled\<close> attribute from the state.\<close>

definition form_render :: "form_state \<Rightarrow> form_state" where
  "form_render s = s\<lparr> button_disabled := pay_button_disabled s \<rparr>"

text \<open>The first render of the component, with the initial \<^verbatim>\<open>useState\<close> values.\<close>

definition form_init :: "bool \<Rightarrow> bool \<Rightarrow> bool \<Rightarrow> form_state" where
  "form_init st el cb =
     form_render
       \<lparr> stripe = st, elements = el, paymentStatus = idle, message = [], onSuccess = cb,
         confirm_calls = 0, confirm_pending = 0, onSuccess_calls = 0,
         button_disabled = False \<rparr>"

text \<open>
  The events of the form.
  \<^item> \<open>Submit\<close> is a submit request made on the page through the pay button, the form's
    only submit control. The form's \<^verbatim>\<open>onSubmit\<close> is \<^verbatim>\<open>handleSubmit\<close>, which has no
    check of its own; a browser does not submit a form through a button whose
    \<^verbatim>\<open>disabled\<close> attribute is set on the page, and that is the only thing that can
    stop the request. The attribute is the one of the last render, not the one the
    current state would give.
  \<^item> \<open>Render\<close> is React rendering the component again. It may come at any point
    between the other events.
  \<^item> \<open>ConfirmSettles\<close> is the settling of one pending \<^verbatim>\<open>stripe.confirmPayment\<close>
    promise.
\<close>

datatype form_event = Submit | Render | ConfirmSettles confirm_outcome

fun form_step :: "form_event \<Rightarrow> form_state \<Rightarrow> form_state" where
  "form_step Submit s = (if button_disabled s then s else handleSubmit s)"
| "form_step Render s = form_render s"
| "form_step (ConfirmSettles out) s =
     (if confirm_pending s = 0 then s
      else handleSubmit_done out (s\<lparr> confirm_pending := confirm_pending s - 1 \<rparr>))"

fun form_run :: "form_event list \<Rightarrow> form_state \<Rightarrow> form_state" where
  "form_run [] s = s"
| "form_run (e # es) s = form_run es (form_step e s)"

text \<open>
  The invariant of the form when every event is rendered: no confirmation is pending, or
  exactly one is and the status is \<open>processing\<close>; and the button on the page is as the
  state gives it.
\<close>

definition one_pending :: "form_state \<Rightarrow> bool" where
  "one_pending s =
     (confirm_pending s = 0 \<or> (confirm_pending s = 1 \<and> paymentStatus s = processing))"

definition form_inv :: "form_state \<Rightarrow> bool" where
  "form_inv s = (one_pending s \<and> button_disabled s = pay_button_disabled s)"

text \<open>The event sequence in which a render follows every event before the next one.\<close>

fun render_after_each :: "form_event list \<Rightarrow> form_event list" where
  "render_after_each [] = []"
| "render_after_each (e # es) = e # Render # render_after_each es"

section \<open>server/index.ts: the relay\<close>

text \<open>
  A field of a parsed JSON request body, as JavaScript sees it: \<open>JUndefined\<close> when the
  field is absent. Arrays and objects are left out: the relay's contract sends numbers
  and strings. Numbers are integers (amounts are counts of minor units).
\<close>

datatype jsval = JUndefined | JNull | JBool bool | JNum int | JStr string

text \<open>\<^verbatim>\<open>!v\<close> is \<open>\<not> truthy v\<close>.\<close>

fun truthy :: "jsval \<Rightarrow> bool" where
  "truthy JUndefined = False"
| "truthy JNull = False"
| "truthy (JBool b) = b"
| "truthy (JNum n) = (n \<noteq> 0)"
| "truthy (JStr s) = (s \<noteq> [])"

text \<open>
  JavaScript's ToNumber, \<open>None\<close> for NaN. The conversion of a string is a parameter:
  it belongs to the language runtime, not to the relay.
\<close>

fun ToNumber :: "(string \<Rightarrow> int option) \<Rightarrow> jsval \<Rightarrow> int option" where
  "ToNumber sn JUndefined = None"
| "ToNumber sn JNull = Some 0"
| "ToNumber sn (JBool b) = Some (if b then 1 else 0)"
| "ToNumber sn (JNum n) = Some n"
| "ToNumber sn (JStr s) = sn s"

text \<open>\<^verbatim>\<open>v < k\<close> for a number \<open>k\<close>: false when \<open>v\<close> converts to NaN.\<close>

definition js_less :: "(string \<Rightarrow> int option) \<Rightarrow> jsval \<Rightarrow> int \<Rightarrow> bool" where
  "js_less sn v k = (case ToNumber sn v of None \<Rightarrow> False | Some n \<Rightarrow> n < k)"

text \<open>The fields the two handlers read from \<^verbatim>\<open>req.body\<close>.\<close>

record request_body =
  body_amount :: jsval
  body_currency :: jsval
  body_paymentMethodTypes :: jsval
  body_paymentIntentId :: jsval

text \<open>The argument of \<^verbatim>\<open>stripe.paymentIntents.create\<close>, as the handler builds it.\<close>

record create_params =
  param_amount :: jsval
  param_currency :: jsval
  param_automatic_payment_methods_enabled :: bool
  param_payment_method_types :: "jsval option"

text \<open>The fields of the processor's PaymentIntent that the relay reads.\<close>

record payment_intent =
  pi_id :: string
  pi_client_secret :: string
  pi_status :: string
  pi_amount :: int
  pi_currency :: string

text \<open>
  The payment processor is outside the repository. It is a parameter: a state \<open>'p\<close> of
  its own and one function per SDK call the relay makes, which returns the call's result
  (\<open>Inl m\<close>: the promise rejects with an error whose \<^verbatim>\<open>message\<close> is \<open>m\<close>, \<open>None\<close> when
  it has none) and the processor's state after the call.
\<close>

type_synonym 'p sdk_create = "'p \<Rightarrow> create_params \<Rightarrow> (string option + payment_intent) \<times> 'p"
type_synonym 'p sdk_retrieve = "'p \<Rightarrow> jsval \<Rightarrow> (string option + payment_intent) \<times> 'p"

text \<open>The calls a handler made on the processor, in order.\<close>

datatype sdk_call = CreateCall create_params | RetrieveCall jsval

datatype response_body =
    ErrorBody string
  | IntentBody string string
  | StatusBody string int string

record http_response =
  status_code :: nat
  body :: response_body

text \<open>
  \<^verbatim>\<open>POST /api/create-payment-intent\<close>. The result is the response, the processor's state
  afterwards and the processor calls made. \<^verbatim>\<open>res.json\<close> without \<^verbatim>\<open>res.status\<close> answers
  200.
\<close>

definition create_payment_intent ::
  "(string \<Rightarrow> int option) \<Rightarrow> 'p sdk_create \<Rightarrow> 'p \<Rightarrow> request_body \<Rightarrow>
     http_response \<times> 'p \<times> sdk_call list" where
  "create_payment_intent sn create p b =
     (let amount = body_amount b;
          currency = (case body_currency b of JUndefined \<Rightarrow> JStr ''usd'' | c \<Rightarrow> c);
          paymentMethodTypes = body_paymentMethodTypes b
      in if \<not> truthy amount \<or> js_less sn amount 50
         then (\<lparr> status_code = 400, body = ErrorBody ''Amount must be at least $0.50 USD'' \<rparr>,
               p, [])
         else
           let params = \<lparr> param_amount = amount,
                           param_currency = currency,
                           param_automatic_payment_methods_enabled = True,
                           param_payment_method_types =
                             (if truthy paymentMethodTypes then Some paymentMethodTypes
                              else None) \<rparr>
           in case create p params of
                (Inr paymentIntent, p') \<Rightarrow>
                  (\<lparr> status_code = 200,
                     body = IntentBody (pi_client_secret paymentIntent) (pi_id paymentIntent) \<rparr>,
                   p', [CreateCall params])
              | (Inl m, p') \<Rightarrow>
                  (\<lparr> status_code = 500,
                     body = ErrorBody (or_else m ''Failed to create payment intent'') \<rparr>,
                   p', [CreateCall params]))"

text \<open>\<^verbatim>\<open>POST /api/confirm-payment\<close>: the status lookup.\<close>

definition confirm_payment ::
  "'p sdk_retrieve \<Rightarrow> 'p \<Rightarrow> request_body \<Rightarrow> http_response \<times> 'p \<times> sdk_call list" where
  "confirm_payment retrieve p b =
     (let paymentIntentId = body_paymentIntentId b
      in if \<not> truthy paymentIntentId
         then (\<lparr> status_code = 400, body = ErrorBody ''paymentIntentId is required'' \<rparr>, p, [])
         else
           case retrieve p paymentIntentId of
             (Inr paymentIntent, p') \<Rightarrow>
               (\<lparr> status_code = 200,
                  body = StatusBody (pi_status paymentIntent) (pi_amount paymentIntent)
                           (pi_currency paymentIntent) \<rparr>,
                p', [RetrieveCall paymentIntentId])
           | (Inl m, p') \<Rightarrow>
               (\<lparr> status_code = 500,
                  body = ErrorBody (or_else m ''Failed to confirm payment'') \<rparr>,
                p', [RetrieveCall paymentIntentId]))"

text \<open>
  \<open>n\<close> requests with the same body, one after the other, each on the processor state
  the previous one left: the responses in order, and the final processor state.
\<close>

fun confirm_payment_repeat ::
  "'p sdk_retrieve \<Rightarrow> nat \<Rightarrow> 'p \<Rightarrow> request_body \<Rightarrow> http_response list \<times> 'p" where
  "confirm_payment_repeat retrieve 0 p b = ([], p)"
| "confirm_payment_repeat retrieve (Suc n) p b =
     (case confirm_payment retrieve p b of
        (r, p', calls) \<Rightarrow>
          (case confirm_payment_repeat retrieve n p' b of (rs, p'') \<Rightarrow> (r # rs, p'')))"

text \<open>
  A processor to run the relay on: its state is the list of intents it holds, newest
  first. \<open>demo_create\<close> refuses a currency other than usd and otherwise stores a new
  intent; \<open>demo_retrieve\<close> looks an intent up by its id and changes nothing.
\<close>

definition demo_create :: "payment_intent list sdk_create" where
  "demo_create p params =
     (case (param_amount params, param_currency params) of
        (JNum n, JStr c) \<Rightarrow>
          (if c = ''usd''
           then (let i = \<lparr> pi_id = ''pi_'' @ replicate (length p) CHR ''x'',
                           pi_client_secret = ''pi_'' @ replicate (length p) CHR ''x'' @ ''_secret'',
                           pi_status = ''requires_payment_method'',
                           pi_amount = n, pi_currency = c \<rparr>
                 in (Inr i, i # p))
           else (Inl (Some ''Invalid currency''), p))
      | _ \<Rightarrow> (Inl (Some ''Invalid request''), p))"

definition demo_retrieve :: "payment_intent list sdk_retrieve" where
  "demo_retrieve p i =
     (case filter (\<lambda>x. JStr (pi_id x) = i) p of
        [] \<Rightarrow> (Inl (Some ''No such payment_intent''), p)
      | x # _ \<Rightarrow> (Inr x, p))"

section \<open>Properties of the wrapper\<close>

lemma useEffect_below_minimum:
  "totalAmount s < 50 \<Longrightarrow>
     requests (useEffect s) = requests s \<and> pending (useEffect s) = pending s \<and>
     error (useEffect s) = ''Minimum order amount is $0.50'' \<and> \<not> loading (useEffect s)"
  by (simp add: useEffect_def)

text \<open>
  C1. Below the minimum, the effect fails locally and sends nothing; the error view it
  leaves offers "Try Again", whose handler has no amount guard. For the amount 25 the
  mount sends no request, and the retry click sends one to the relay with amount 25.
\<close>

theorem retry_below_minimum_sends_request:
  "requests (mount None 25) = [] \<and>
   error (mount None 25) = ''Minimum order amount is $0.50'' \<and>
   render (mount None 25) = ErrorView \<and>
   requests (checkout_step RetryClick (mount None 25)) =
     [\<lparr> req_url = ''/api/create-payment-intent'', req_verb = ''POST'',
        req_amount = 25, req_currency = ''usd'' \<rparr>]"
  by (simp add: mount_def useEffect_def render_def createPaymentIntent_def apiUrl_def)

lemma pending_createPaymentIntent:
  "pending (createPaymentIntent s) = pending s @ [length (requests s)]"
  by (simp add: createPaymentIntent_def)

text \<open>
  C3, as stated, fails. The component mounts with amount 100 (request 0), the amount
  changes to 200 while request 0 is in flight (request 1), request 1 answers with the
  secret of the 200 intent, and then request 0 answers late: its secret replaces the
  newer one, while \<^verbatim>\<open>totalAmount\<close> is 200.
\<close>

theorem late_response_counterexample:
  "pending (checkout_run [SetAmount 200, Settle 1 (OkBody ''cs_200'')] (mount None 100)) = [0] \<and>
   map req_amount
     (requests (checkout_run [SetAmount 200, Settle 1 (OkBody ''cs_200'')] (mount None 100))) =
     [100, 200] \<and>
   clientSecret (checkout_run [SetAmount 200, Settle 1 (OkBody ''cs_200'')] (mount None 100)) =
     ''cs_200'' \<and>
   clientSecret (checkout_run [SetAmount 200, Settle 1 (OkBody ''cs_200''),
       Settle 0 (OkBody ''cs_100'')] (mount None 100)) = ''cs_100'' \<and>
   totalAmount (checkout_run [SetAmount 200, Settle 1 (OkBody ''cs_200''),
       Settle 0 (OkBody ''cs_100'')] (mount None 100)) = 200"
  by (simp add: mount_def useEffect_def createPaymentIntent_def apiUrl_def)

text \<open>
  C3, amended. The component keeps no attempt token. Starting a new
  \<^verbatim>\<open>createPaymentIntent\<close> leaves every earlier request pending, and when any pending
  request completes, the newest or not, its result is written: on success the secret
  of the response and \<^verbatim>\<open>loading = false\<close>; on a failure the error text and
  \<^verbatim>\<open>loading = false\<close>.
\<close>

theorem late_response_is_written:
  "set (pending s) \<subseteq> set (pending (createPaymentIntent s)) \<and>
   (i \<in> set (pending s) \<longrightarrow>
      clientSecret (checkout_step (Settle i (OkBody cs)) s) = cs \<and>
      \<not> loading (checkout_step (Settle i (OkBody cs)) s) \<and>
      error (checkout_step (Settle i (NotOkBody e)) s) =
        or_else e ''Failed to create payment intent'' \<and>
      \<not> loading (checkout_step (Settle i (NotOkBody e)) s) \<and>
      error (checkout_step (Settle i (FetchThrows t)) s) = catch_create t \<and>
      \<not> loading (checkout_step (Settle i (FetchThrows t)) s))"
  by (auto simp add: pending_createPaymentIntent)

theorem late_response_is_written_witness:
  "pending (checkout_step (SetAmount 200) (mount None 100)) = [0, 1] \<and>
   clientSecret (checkout_step (Settle 0 (OkBody ''cs_100''))
     (checkout_step (SetAmount 200) (mount None 100))) = ''cs_100''"
  using late_response_is_written [where s = "checkout_step (SetAmount 200) (mount None 100)"
      and i = 0 and cs = "''cs_100''"]
  by (simp add: mount_def useEffect_def createPaymentIntent_def apiUrl_def)

subsection \<open>The wrapper talks to one route only\<close>

lemma createPaymentIntent_done_requests:
  "requests (createPaymentIntent_done out s) = requests s \<and>
   VITE_API_URL (createPaymentIntent_done out s) = VITE_API_URL s"
  by (cases out) simp_all

lemma only_create_createPaymentIntent:
  "only_create_requests s \<Longrightarrow> only_create_requests (createPaymentIntent s)"
  by (simp add: only_create_requests_def createPaymentIntent_def apiUrl_def)

lemma only_create_useEffect:
  "only_create_requests s \<Longrightarrow> only_create_requests (useEffect s)"
  by (simp add: useEffect_def only_create_createPaymentIntent)
    (simp add: only_create_requests_def apiUrl_def)

lemma only_create_step:
  "only_create_requests s \<Longrightarrow> only_create_requests (checkout_step e s)"
proof (cases e)
  case (SetAmount a)
  assume inv: "only_create_requests s"
  then have "only_create_requests (s\<lparr> totalAmount := a \<rparr>)"
    by (simp add: only_create_requests_def apiUrl_def)
  then have "only_create_requests (useEffect (s\<lparr> totalAmount := a \<rparr>))"
    by (rule only_create_useEffect)
  with SetAmount inv show ?thesis by simp
next
  case RetryClick
  assume "only_create_requests s"
  with RetryClick show ?thesis by (simp add: only_create_createPaymentIntent)
next
  case (Settle i out)
  assume "only_create_requests s"
  with Settle show ?thesis
    by (simp add: only_create_requests_def apiUrl_def createPaymentIntent_done_requests)
qed

lemma only_create_run:
  "only_create_requests s \<Longrightarrow> only_create_requests (checkout_run evs s)"
  by (induction evs arbitrary: s) (simp_all add: only_create_step)

lemma only_create_mount: "only_create_requests (mount env a)"
  unfolding mount_def
  by (rule only_create_useEffect) (simp add: only_create_requests_def)

section \<open>Properties of the form\<close>

subsection \<open>The gate of the pay button\<close>

lemma form_inv_init: "form_inv (form_init st el cb)"
  by (simp add: form_inv_def one_pending_def form_init_def form_render_def
      pay_button_disabled_def isProcessing_def isSucceeded_def)

lemma handleSubmit_done_pending:
  "confirm_pending (handleSubmit_done out s) = confirm_pending s"
  by (cases "(out, s)" rule: handleSubmit_done.cases) auto

lemma one_pending_step: "form_inv s \<Longrightarrow> one_pending (form_step e s)"
proof (cases e)
  case Submit
  assume inv: "form_inv s"
  show ?thesis
  proof (cases "button_disabled s")
    case True
    with Submit inv show ?thesis by (simp add: form_inv_def)
  next
    case False
    with inv have "paymentStatus s \<noteq> processing"
      by (simp add: form_inv_def pay_button_disabled_def isProcessing_def)
    with inv have "confirm_pending s = 0"
      by (auto simp: form_inv_def one_pending_def)
    with Submit False show ?thesis
      by (simp add: one_pending_def handleSubmit_def)
  qed
next
  case Render
  assume "form_inv s"
  with Render show ?thesis
    by (simp add: form_inv_def one_pending_def form_render_def)
next
  case (ConfirmSettles out)
  assume "form_inv s"
  with ConfirmSettles show ?thesis
    by (auto simp: form_inv_def one_pending_def handleSubmit_done_pending)
qed

lemma form_inv_render: "one_pending s \<Longrightarrow> form_inv (form_render s)"
  by (simp add: form_inv_def one_pending_def form_render_def pay_button_disabled_def
      isProcessing_def isSucceeded_def)

lemma form_inv_run_rendered:
  "form_inv s \<Longrightarrow> form_inv (form_run (render_after_each evs) s)"
proof (induction evs arbitrary: s)
  case Nil
  then show ?case by simp
next
  case (Cons e evs)
  from Cons.prems have "form_inv (form_render (form_step e s))"
    by (intro form_inv_render one_pending_step)
  then have "form_inv (form_run (render_after_each evs) (form_render (form_step e s)))"
    by (rule Cons.IH)
  then show ?case by simp
qed

lemma form_run_append: "form_run (xs @ ys) s = form_run ys (form_run xs s)"
  by (induction xs arbitrary: s) simp_all

lemma submits_on_disabled_button:
  "button_disabled s \<Longrightarrow> form_run (replicate k Submit) s = s"
  by (induction k) simp_all

text \<open>
  A state with nothing pending, whose button is disabled both in the state and on the
  page, never changes again: no submit gets through, a render gives the same page, and
  there is no promise left to settle.
\<close>

lemma settled_state_absorbing:
  assumes "confirm_pending s = 0" and "pay_button_disabled s" and "button_disabled s"
  shows "form_run evs s = s"
proof (induction evs)
  case Nil
  show ?case by simp
next
  case (Cons e evs)
  from assms have "form_step e s = s"
    by (cases e) (simp_all add: form_render_def)
  with Cons show ?case by simp
qed

text \<open>
  C2, as stated, fails. \<^verbatim>\<open>handleSubmit\<close> does not read \<^verbatim>\<open>paymentStatus\<close>: after one
  submit the status is \<open>processing\<close> and one confirmation is pending, and a second submit
  that arrives before the next render calls \<^verbatim>\<open>stripe.confirmPayment\<close> a second time.
\<close>

theorem double_submit_counterexample:
  "paymentStatus (form_run [Submit] (form_init True True True)) = processing \<and>
   confirm_pending (form_run [Submit] (form_init True True True)) = 1 \<and>
   confirm_calls (form_run [Submit, Submit] (form_init True True True)) = 2 \<and>
   confirm_pending (form_run [Submit, Submit] (form_init True True True)) = 2 \<and>
   confirm_calls (handleSubmit (handleSubmit (form_init True True True))) = 2"
  by (simp add: form_init_def form_render_def handleSubmit_def pay_button_disabled_def
      isProcessing_def isSucceeded_def)

text \<open>
  C2, amended. The gate is the pay button's \<^verbatim>\<open>disabled\<close> attribute. Once the
  \<open>processing\<close> status has been rendered, a submit request through the button leaves the
  state as it is, the counter of \<^verbatim>\<open>stripe.confirmPayment\<close> calls included: a submit on a
  ready form, its render and any number of further submits make exactly one call. When
  a render follows every event, at most one confirmation is in flight over every
  sequence of events from the initial state.
\<close>

theorem rendered_gate:
  "(paymentStatus s = processing \<longrightarrow>
      form_step Submit (form_step Render s) = form_step Render s) \<and>
   (stripe s \<and> elements s \<and> \<not> button_disabled s \<longrightarrow>
      form_run (Submit # Render # replicate k Submit) s = form_run [Submit, Render] s \<and>
      confirm_calls (form_run (Submit # Render # replicate k Submit) s) =
        Suc (confirm_calls s)) \<and>
   confirm_pending (form_run (render_after_each evs) (form_init st el cb)) \<le> 1"
proof (intro conjI impI)
  assume "paymentStatus s = processing"
  then show "form_step Submit (form_step Render s) = form_step Render s"
    by (simp add: form_render_def pay_button_disabled_def isProcessing_def)
next
  assume ready: "stripe s \<and> elements s \<and> \<not> button_disabled s"
  define s' where "s' = form_run [Submit, Render] s"
  from ready have eq: "s' = (handleSubmit s)\<lparr> button_disabled := True \<rparr>"
    unfolding s'_def
    by (simp add: form_render_def handleSubmit_def pay_button_disabled_def isProcessing_def)
  then have "button_disabled s'" by simp
  then have same: "form_run (replicate k Submit) s' = s'"
    by (rule submits_on_disabled_button)
  have split: "form_run (Submit # Render # replicate k Submit) s =
      form_run (replicate k Submit) s'"
    unfolding s'_def by simp
  from split same show "form_run (Submit # Render # replicate k Submit) s =
      form_run [Submit, Render] s"
    unfolding s'_def by simp
  from split same have "form_run (Submit # Render # replicate k Submit) s = s'"
    by simp
  with eq ready show "confirm_calls (form_run (Submit # Render # replicate k Submit) s) =
      Suc (confirm_calls s)"
    by (simp add: handleSubmit_def)
next
  have "form_inv (form_run (render_after_each evs) (form_init st el cb))"
    by (rule form_inv_run_rendered [OF form_inv_init])
  then show "confirm_pending (form_run (render_after_each evs) (form_init st el cb)) \<le> 1"
    by (auto simp: form_inv_def one_pending_def)
qed

theorem rendered_gate_witness:
  "form_run [Submit, Render, Submit, Submit] (form_init True True True) =
     form_run [Submit, Render] (form_init True True True) \<and>
   confirm_calls (form_run [Submit, Render, Submit, Submit] (form_init True True True)) = 1 \<and>
   confirm_pending (form_run
     (render_after_each [Submit, Submit, ConfirmSettles (Rejects NonError), Submit])
     (form_init True True True)) \<le> 1"
  using rendered_gate [where s = "form_init True True True" and k = "Suc (Suc 0)"
      and evs = "[Submit, Submit, ConfirmSettles (Rejects NonError), Submit]"
      and st = True and el = True and cb = True]
  by (simp add: form_init_def form_render_def handleSubmit_def pay_button_disabled_def
      isProcessing_def isSucceeded_def)

subsection \<open>The outcome dispatch\<close>

text \<open>
  C4, as stated, fails. An error whose message is the empty string is shown as the
  component's own text, and so is an error that has no message.
\<close>

theorem error_message_counterexample:
  "message (form_run [Submit, ConfirmSettles (Resolves (Some (Some [])) None)]
      (form_init True True True)) = ''An error occurred during payment'' \<and>
   message (form_run [Submit, ConfirmSettles (Resolves (Some (Some [])) None)]
      (form_init True True True)) \<noteq> [] \<and>
   message (form_run [Submit, ConfirmSettles (Resolves (Some None) None)]
      (form_init True True True)) = ''An error occurred during payment''"
  by (simp add: form_init_def form_render_def handleSubmit_def pay_button_disabled_def
      isProcessing_def isSucceeded_def)

text \<open>
  C4, amended. When the pending confirmation resolves with an error, the status becomes
  \<open>failed\<close>; the message shown is the error's message, character for character, when that
  message is a non-empty string, and the fixed text "An error occurred during payment"
  when the error has no message or an empty one.
\<close>

theorem error_message_passthrough:
  "confirm_pending s \<noteq> 0 \<Longrightarrow>
     paymentStatus (form_step (ConfirmSettles (Resolves (Some m) p)) s) = failed \<and>
     (m = Some t \<and> t \<noteq> [] \<longrightarrow>
        message (form_step (ConfirmSettles (Resolves (Some m) p)) s) = t) \<and>
     (m = None \<or> m = Some [] \<longrightarrow>
        message (form_step (ConfirmSettles (Resolves (Some m) p)) s) =
          ''An error occurred during payment'')"
  by auto

theorem error_message_passthrough_witness:
  "paymentStatus (form_run
      [Submit, ConfirmSettles (Resolves (Some (Some ''Your card was declined.'')) None)]
      (form_init True True True)) = failed \<and>
   message (form_run
      [Submit, ConfirmSettles (Resolves (Some (Some ''Your card was declined.'')) None)]
      (form_init True True True)) = ''Your card was declined.''"
  using error_message_passthrough [where s = "form_step Submit (form_init True True True)"
      and m = "Some ''Your card was declined.''" and t = "''Your card was declined.''"
      and p = None]
  by (simp add: form_init_def form_render_def handleSubmit_def pay_button_disabled_def
      isProcessing_def isSucceeded_def)

text \<open>
  \<^verbatim>\<open>onSuccess\<close> is called by one event only: the settling of a pending confirmation that
  resolves without error to \<^verbatim>\<open>succeeded\<close>, and then once when the prop is given.
\<close>

lemma onSuccess_calls_step:
  "onSuccess_calls (form_step e s) =
     (if confirm_pending s \<noteq> 0 \<and> onSuccess s \<and>
         e = ConfirmSettles (Resolves None (Some ''succeeded''))
      then Suc (onSuccess_calls s) else onSuccess_calls s)"
proof (cases e)
  case Submit
  then show ?thesis by (simp add: handleSubmit_def)
next
  case Render
  then show ?thesis by (simp add: form_render_def)
next
  case (ConfirmSettles out)
  then show ?thesis
    by (cases "(out, s)" rule: handleSubmit_done.cases) auto
qed

text \<open>
  C5. On a ready form with a registered callback, a submit whose confirmation resolves
  to \<^verbatim>\<open>succeeded\<close> sets the status to \<open>succeeded\<close> and calls \<^verbatim>\<open>onSuccess\<close> once. Once the
  page has been rendered, after the outcome or while the confirmation was pending, the
  count stays at one more than before whatever events follow.
\<close>

theorem success_callback_once:
  assumes "stripe s" and "elements s" and "onSuccess s"
    and "\<not> button_disabled s" and "confirm_pending s = 0"
  shows "paymentStatus
           (form_run [Submit, ConfirmSettles (Resolves None (Some ''succeeded''))] s) =
           succeeded \<and>
         onSuccess_calls
           (form_run [Submit, ConfirmSettles (Resolves None (Some ''succeeded''))] s) =
           Suc (onSuccess_calls s) \<and>
         (\<forall>evs. onSuccess_calls
           (form_run ([Submit, ConfirmSettles (Resolves None (Some ''succeeded'')), Render]
              @ evs) s) = Suc (onSuccess_calls s)) \<and>
         (\<forall>evs. onSuccess_calls
           (form_run ([Submit, Render, ConfirmSettles (Resolves None (Some ''succeeded''))]
              @ evs) s) = Suc (onSuccess_calls s))"
proof -
  define s1 where "s1 = form_run [Submit, ConfirmSettles (Resolves None (Some ''succeeded''))] s"
  define s2 where
    "s2 = form_run [Submit, ConfirmSettles (Resolves None (Some ''succeeded'')), Render] s"
  define s3 where
    "s3 = form_run [Submit, Render, ConfirmSettles (Resolves None (Some ''succeeded''))] s"
  from assms have eq1: "s1 = s\<lparr> paymentStatus := succeeded,
      message := ''Payment successful! Thank you for your purchase.'',
      confirm_calls := Suc (confirm_calls s), confirm_pending := 0,
      onSuccess_calls := Suc (onSuccess_calls s) \<rparr>"
    unfolding s1_def by (simp add: handleSubmit_def)
  from assms have eq2: "s2 = s\<lparr> paymentStatus := succeeded,
      message := ''Payment successful! Thank you for your purchase.'',
      confirm_calls := Suc (confirm_calls s), confirm_pending := 0,
      onSuccess_calls := Suc (onSuccess_calls s), button_disabled := True \<rparr>"
    unfolding s2_def
    by (simp add: handleSubmit_def form_render_def pay_button_disabled_def isSucceeded_def)
  from assms have eq3: "s3 = s2"
    unfolding s3_def eq2
    by (simp add: handleSubmit_def form_render_def pay_button_disabled_def isProcessing_def)
  have abs2: "form_run evs s2 = s2" for evs
    by (rule settled_state_absorbing)
      (simp_all add: eq2 pay_button_disabled_def isSucceeded_def)
  have "paymentStatus s1 = succeeded \<and> onSuccess_calls s1 = Suc (onSuccess_calls s) \<and>
        (\<forall>evs. onSuccess_calls (form_run evs s2) = Suc (onSuccess_calls s)) \<and>
        (\<forall>evs. onSuccess_calls (form_run evs s3) = Suc (onSuccess_calls s))"
    unfolding eq3 by (simp only: abs2) (simp add: eq1 eq2)
  then show ?thesis
    unfolding form_run_append s1_def s2_def s3_def .
qed

theorem success_callback_once_witness:
  "paymentStatus (form_run [Submit, ConfirmSettles (Resolves None (Some ''succeeded''))]
      (form_init True True True)) = succeeded \<and>
   onSuccess_calls (form_run [Submit, ConfirmSettles (Resolves None (Some ''succeeded''))]
      (form_init True True True)) = 1 \<and>
   onSuccess_calls (form_run
      ([Submit, ConfirmSettles (Resolves None (Some ''succeeded'')), Render] @
       [Submit, ConfirmSettles (Resolves None (Some ''succeeded''))])
      (form_init True True True)) = 1 \<and>
   onSuccess_calls (form_run
      ([Submit, Render, ConfirmSettles (Resolves None (Some ''succeeded''))] @
       [Submit, ConfirmSettles (Resolves None (Some ''succeeded''))])
      (form_init True True True)) = 1"
  using success_callback_once [of "form_init True True True"]
  by (simp add: form_init_def form_render_def handleSubmit_def pay_button_disabled_def
      isProcessing_def isSucceeded_def)

text \<open>
  C6. When \<^verbatim>\<open>stripe\<close> or \<^verbatim>\<open>elements\<close> is missing, \<^verbatim>\<open>handleSubmit\<close> returns at once: it
  only sets the not-loaded message; it makes no call of \<^verbatim>\<open>stripe.confirmPayment\<close> and
  leaves the status as it was.
\<close>

theorem not_ready_guard:
  "\<not> stripe s \<or> \<not> elements s \<Longrightarrow>
     handleSubmit s = s\<lparr> message := ''Stripe is not loaded. Please refresh the page.'' \<rparr> \<and>
     confirm_calls (handleSubmit s) = confirm_calls s \<and>
     confirm_pending (handleSubmit s) = confirm_pending s \<and>
     paymentStatus (handleSubmit s) = paymentStatus s"
  by (simp add: handleSubmit_def)

theorem not_ready_guard_witness:
  "message (handleSubmit (form_init True False True)) =
     ''Stripe is not loaded. Please refresh the page.'' \<and>
   confirm_calls (handleSubmit (form_init True False True)) = 0 \<and>
   message (handleSubmit (form_init False False True)) =
     ''Stripe is not loaded. Please refresh the page.'' \<and>
   confirm_calls (handleSubmit (form_init False False True)) = 0"
  using not_ready_guard [of "form_init True False True"]
    not_ready_guard [of "form_init False False True"]
  by (simp add: form_init_def form_render_def)

lemma PaymentStatus_values: "(UNIV :: PaymentStatus set) = {idle, processing, succeeded, failed}"
proof -
  have "x \<in> {idle, processing, succeeded, failed}" for x :: PaymentStatus
    by (cases x) simp_all
  then show ?thesis by blast
qed

text \<open>
  C9. On a ready form, a submit whose confirmation resolves with no error and an intent
  whose status is not \<^verbatim>\<open>succeeded\<close> leaves the status at \<open>processing\<close> and the message
  empty; once the page has been rendered, after the outcome or while the confirmation
  was pending, no later event of the form changes that state. \<^verbatim>\<open>PaymentStatus\<close> has the
  four values \<open>idle\<close>, \<open>processing\<close>, \<open>succeeded\<close>, \<open>failed\<close> and no other, and every
  request the wrapper ever sends goes to the create-payment-intent route.
\<close>

theorem unresolved_confirmation_stays_processing:
  assumes "stripe s" and "elements s" and "\<not> button_disabled s"
    and "confirm_pending s = 0" and "st \<noteq> ''succeeded''"
  shows "paymentStatus (form_run [Submit, ConfirmSettles (Resolves None (Some st))] s) =
           processing \<and>
         message (form_run [Submit, ConfirmSettles (Resolves None (Some st))] s) = [] \<and>
         (\<forall>evs. form_run ([Submit, ConfirmSettles (Resolves None (Some st)), Render] @ evs) s =
                 form_run [Submit, ConfirmSettles (Resolves None (Some st)), Render] s) \<and>
         (\<forall>evs. form_run ([Submit, Render, ConfirmSettles (Resolves None (Some st))] @ evs) s =
                 form_run [Submit, Render, ConfirmSettles (Resolves None (Some st))] s) \<and>
         (UNIV :: PaymentStatus set) = {idle, processing, succeeded, failed} \<and>
         only_create_requests (checkout_run cevs (mount env a))"
proof -
  define s1 where "s1 = form_run [Submit, ConfirmSettles (Resolves None (Some st))] s"
  define s2 where "s2 = form_run [Submit, ConfirmSettles (Resolves None (Some st)), Render] s"
  define s3 where "s3 = form_run [Submit, Render, ConfirmSettles (Resolves None (Some st))] s"
  from assms have eq1: "s1 = s\<lparr> paymentStatus := processing, message := [],
      confirm_calls := Suc (confirm_calls s), confirm_pending := 0 \<rparr>"
    unfolding s1_def by (simp add: handleSubmit_def)
  from assms have eq2: "s2 = s\<lparr> paymentStatus := processing, message := [],
      confirm_calls := Suc (confirm_calls s), confirm_pending := 0,
      button_disabled := True \<rparr>"
    unfolding s2_def
    by (simp add: handleSubmit_def form_render_def pay_button_disabled_def isProcessing_def)
  from assms have eq3: "s3 = s2"
    unfolding s3_def eq2
    by (simp add: handleSubmit_def form_render_def pay_button_disabled_def isProcessing_def)
  have abs2: "form_run evs s2 = s2" for evs
    by (rule settled_state_absorbing)
      (simp_all add: eq2 pay_button_disabled_def isProcessing_def)
  have "paymentStatus s1 = processing \<and> message s1 = [] \<and>
        (\<forall>evs. form_run evs s2 = s2) \<and> (\<forall>evs. form_run evs s3 = s3)"
    unfolding eq3 by (simp only: abs2) (simp add: eq1)
  then have "paymentStatus (form_run [Submit, ConfirmSettles (Resolves None (Some st))] s) =
           processing \<and>
         message (form_run [Submit, ConfirmSettles (Resolves None (Some st))] s) = [] \<and>
         (\<forall>evs. form_run ([Submit, ConfirmSettles (Resolves None (Some st)), Render] @ evs) s =
                 form_run [Submit, ConfirmSettles (Resolves None (Some st)), Render] s) \<and>
         (\<forall>evs. form_run ([Submit, Render, ConfirmSettles (Resolves None (Some st))] @ evs) s =
                 form_run [Submit, Render, ConfirmSettles (Resolves None (Some st))] s)"
    unfolding form_run_append s1_def s2_def s3_def .
  with PaymentStatus_values only_create_run [OF only_create_mount] show ?thesis
    by blast
qed

theorem unresolved_confirmation_stays_processing_witness:
  "paymentStatus (form_run [Submit, ConfirmSettles (Resolves None (Some ''requires_action''))]
      (form_init True True True)) = processing \<and>
   message (form_run [Submit, ConfirmSettles (Resolves None (Some ''requires_action''))]
      (form_init True True True)) = [] \<and>
   confirm_calls (form_run
      ([Submit, ConfirmSettles (Resolves None (Some ''requires_action'')), Render] @
       [Submit, Submit]) (form_init True True True)) = 1 \<and>
   map req_url (requests (checkout_run [SetAmount 200, Settle 0 (NotOkBody None), RetryClick]
      (mount None 100))) =
     [''/api/create-payment-intent'', ''/api/create-payment-intent'',
      ''/api/create-payment-intent'']"
  using unresolved_confirmation_stays_processing [where s = "form_init True True True"
      and st = "''requires_action''" and env = None and a = 100
      and cevs = "[SetAmount 200, Settle 0 (NotOkBody None), RetryClick]"]
  by (simp add: form_init_def form_render_def handleSubmit_def pay_button_disabled_def
      isProcessing_def isSucceeded_def mount_def useEffect_def createPaymentIntent_def
      apiUrl_def render_def)

section \<open>Properties of the relay\<close>

text \<open>
  C7. For a numeric amount below 50 the relay answers 400 with the text "Amount must be
  at least $0.50 USD", makes no processor call and leaves the processor as it was. For a
  numeric amount of 50 or more it makes one \<^verbatim>\<open>paymentIntents.create\<close> call with that
  amount; when the call succeeds it answers 200 with the intent's client secret and id,
  and when the call fails it answers 500 with an error string (the processor's message,
  or "Failed to create payment intent" when there is none).
\<close>

theorem create_payment_intent_contract:
  assumes "body_amount b = JNum n"
  shows "(n < 50 \<longrightarrow>
           create_payment_intent sn create p b =
             (\<lparr> status_code = 400, body = ErrorBody ''Amount must be at least $0.50 USD'' \<rparr>,
              p, [])) \<and>
         (50 \<le> n \<longrightarrow>
           (\<exists>params. snd (snd (create_payment_intent sn create p b)) = [CreateCall params] \<and>
              param_amount params = JNum n \<and>
              fst (snd (create_payment_intent sn create p b)) = snd (create p params) \<and>
              (case fst (create p params) of
                 Inr i \<Rightarrow> fst (create_payment_intent sn create p b) =
                   \<lparr> status_code = 200, body = IntentBody (pi_client_secret i) (pi_id i) \<rparr>
               | Inl m \<Rightarrow> fst (create_payment_intent sn create p b) =
                   \<lparr> status_code = 500,
                     body = ErrorBody (or_else m ''Failed to create payment intent'') \<rparr>)))"
  using assms
  by (auto simp: create_payment_intent_def js_less_def Let_def split: prod.splits sum.splits)

theorem create_payment_intent_contract_witness:
  "create_payment_intent (\<lambda>x. None) demo_create []
     \<lparr> body_amount = JNum 25, body_currency = JStr ''usd'',
       body_paymentMethodTypes = JUndefined, body_paymentIntentId = JUndefined \<rparr> =
     (\<lparr> status_code = 400, body = ErrorBody ''Amount must be at least $0.50 USD'' \<rparr>, [], []) \<and>
   fst (create_payment_intent (\<lambda>x. None) demo_create []
     \<lparr> body_amount = JNum 9996, body_currency = JStr ''usd'',
       body_paymentMethodTypes = JUndefined, body_paymentIntentId = JUndefined \<rparr>) =
     \<lparr> status_code = 200, body = IntentBody ''pi__secret'' ''pi_'' \<rparr> \<and>
   fst (create_payment_intent (\<lambda>x. None) demo_create []
     \<lparr> body_amount = JNum 9996, body_currency = JStr ''xxx'',
       body_paymentMethodTypes = JUndefined, body_paymentIntentId = JUndefined \<rparr>) =
     \<lparr> status_code = 500, body = ErrorBody ''Invalid currency'' \<rparr>"
  using create_payment_intent_contract [where n = 25 and sn = "\<lambda>x. None" and create = demo_create
      and p = "[]" and b = "\<lparr> body_amount = JNum 25, body_currency = JStr ''usd'',
       body_paymentMethodTypes = JUndefined, body_paymentIntentId = JUndefined \<rparr>"]
    create_payment_intent_contract [where n = 9996 and sn = "\<lambda>x. None" and create = demo_create
      and p = "[]" and b = "\<lparr> body_amount = JNum 9996, body_currency = JStr ''usd'',
       body_paymentMethodTypes = JUndefined, body_paymentIntentId = JUndefined \<rparr>"]
  by (simp add: create_payment_intent_def js_less_def demo_create_def Let_def)

text \<open>
  C10. When the body has no \<^verbatim>\<open>currency\<close> field and the amount passes the guard, the
  relay does not answer 400: it makes one \<^verbatim>\<open>paymentIntents.create\<close> call, with the
  body's amount and the currency \<^verbatim>\<open>'usd'\<close>.
\<close>

theorem currency_defaults_to_usd:
  assumes "body_currency b = JUndefined" and "truthy (body_amount b)"
    and "\<not> js_less sn (body_amount b) 50"
  shows "\<exists>params. snd (snd (create_payment_intent sn create p b)) = [CreateCall params] \<and>
           param_currency params = JStr ''usd'' \<and>
           param_amount params = body_amount b \<and>
           status_code (fst (create_payment_intent sn create p b)) \<noteq> 400"
  using assms
  by (auto simp: create_payment_intent_def Let_def split: prod.splits sum.splits)

theorem currency_defaults_to_usd_witness:
  "create_payment_intent (\<lambda>x. None) demo_create []
     \<lparr> body_amount = JNum 9996, body_currency = JUndefined,
       body_paymentMethodTypes = JUndefined, body_paymentIntentId = JUndefined \<rparr> =
     (\<lparr> status_code = 200, body = IntentBody ''pi__secret'' ''pi_'' \<rparr>,
      [\<lparr> pi_id = ''pi_'', pi_client_secret = ''pi__secret'',
         pi_status = ''requires_payment_method'', pi_amount = 9996, pi_currency = ''usd'' \<rparr>],
      [CreateCall \<lparr> param_amount = JNum 9996, param_currency = JStr ''usd'',
         param_automatic_payment_methods_enabled = True,
         param_payment_method_types = None \<rparr>])"
  using currency_defaults_to_usd [where sn = "\<lambda>x. None" and create = demo_create
      and p = "[]" and b = "\<lparr> body_amount = JNum 9996, body_currency = JUndefined,
       body_paymentMethodTypes = JUndefined, body_paymentIntentId = JUndefined \<rparr>"]
  by (simp add: create_payment_intent_def js_less_def demo_create_def Let_def)

subsection \<open>The status lookup\<close>

lemma confirm_payment_read_only:
  assumes "\<forall>q i. snd (retrieve q i) = q"
  shows "fst (snd (confirm_payment retrieve p b)) = p"
proof (cases "truthy (body_paymentIntentId b)")
  case False
  then show ?thesis by (simp add: confirm_payment_def)
next
  case True
  obtain r p' where r: "retrieve p (body_paymentIntentId b) = (r, p')"
    by (cases "retrieve p (body_paymentIntentId b)")
  with assms have "p' = p" by (metis snd_conv)
  with True r show ?thesis
    by (cases r) (simp_all add: confirm_payment_def)
qed

lemma confirm_payment_calls:
  "snd (snd (confirm_payment retrieve p b)) =
     (if truthy (body_paymentIntentId b) then [RetrieveCall (body_paymentIntentId b)] else [])"
  by (auto simp: confirm_payment_def Let_def split: prod.splits sum.splits)

lemma demo_retrieve_read_only: "\<forall>q i. snd (demo_retrieve q i) = q"
  by (simp add: demo_retrieve_def split: list.splits)

text \<open>
  C8. The status endpoint makes no processor call other than
  \<^verbatim>\<open>paymentIntents.retrieve\<close>. On a processor whose retrieve is a read (it leaves the
  processor's state as it is), any number of repeated requests leave the processor's
  state unchanged and all return the response of the first; for an intent the processor
  holds, that response is 200 with the intent's status, amount and currency.
\<close>

theorem confirm_payment_idempotent:
  assumes "\<forall>q i. snd (retrieve q i) = q"
  shows "snd (confirm_payment_repeat retrieve n p b) = p \<and>
         fst (confirm_payment_repeat retrieve n p b) =
           replicate n (fst (confirm_payment retrieve p b)) \<and>
         (truthy (body_paymentIntentId b) \<and> fst (retrieve p (body_paymentIntentId b)) = Inr i \<longrightarrow>
            fst (confirm_payment retrieve p b) =
              \<lparr> status_code = 200,
                body = StatusBody (pi_status i) (pi_amount i) (pi_currency i) \<rparr>) \<and>
         (\<forall>c \<in> set (snd (snd (confirm_payment retrieve p b))). \<exists>j. c = RetrieveCall j)"
proof (intro conjI)
  have both: "snd (confirm_payment_repeat retrieve n p b) = p \<and>
      fst (confirm_payment_repeat retrieve n p b) = replicate n (fst (confirm_payment retrieve p b))"
  proof (induction n)
    case 0
    show ?case by simp
  next
    case (Suc n)
    obtain r p' calls where c: "confirm_payment retrieve p b = (r, p', calls)"
      by (cases "confirm_payment retrieve p b")
    with confirm_payment_read_only [OF assms, of p b] have "p' = p" by simp
    with c Suc show ?case
      by (cases "confirm_payment_repeat retrieve n p b") simp
  qed
  from both show "snd (confirm_payment_repeat retrieve n p b) = p" by simp
  from both show "fst (confirm_payment_repeat retrieve n p b) =
      replicate n (fst (confirm_payment retrieve p b))" by simp
  show "truthy (body_paymentIntentId b) \<and> fst (retrieve p (body_paymentIntentId b)) = Inr i \<longrightarrow>
      fst (confirm_payment retrieve p b) =
        \<lparr> status_code = 200, body = StatusBody (pi_status i) (pi_amount i) (pi_currency i) \<rparr>"
    by (auto simp: confirm_payment_def Let_def split: prod.splits sum.splits)
  show "\<forall>c \<in> set (snd (snd (confirm_payment retrieve p b))). \<exists>j. c = RetrieveCall j"
    by (simp add: confirm_payment_calls)
qed

theorem confirm_payment_idempotent_witness:
  "confirm_payment_repeat demo_retrieve 3
     [\<lparr> pi_id = ''pi_1'', pi_client_secret = ''pi_1_secret'', pi_status = ''succeeded'',
        pi_amount = 9996, pi_currency = ''usd'' \<rparr>]
     \<lparr> body_amount = JUndefined, body_currency = JUndefined,
       body_paymentMethodTypes = JUndefined, body_paymentIntentId = JStr ''pi_1'' \<rparr> =
   ([\<lparr> status_code = 200, body = StatusBody ''succeeded'' 9996 ''usd'' \<rparr>,
     \<lparr> status_code = 200, body = StatusBody ''succeeded'' 9996 ''usd'' \<rparr>,
     \<lparr> status_code = 200, body = StatusBody ''succeeded'' 9996 ''usd'' \<rparr>],
    [\<lparr> pi_id = ''pi_1'', pi_client_secret = ''pi_1_secret'', pi_status = ''succeeded'',
        pi_amount = 9996, pi_currency = ''usd'' \<rparr>])"
  using confirm_payment_idempotent [OF demo_retrieve_read_only, where n = 3
      and p = "[\<lparr> pi_id = ''pi_1'', pi_client_secret = ''pi_1_secret'', pi_status = ''succeeded'',
        pi_amount = 9996, pi_currency = ''usd'' \<rparr>]"
      and b = "\<lparr> body_amount = JUndefined, body_currency = JUndefined,
       body_paymentMethodTypes = JUndefined, body_paymentIntentId = JStr ''pi_1'' \<rparr>"]
  by (simp add: confirm_payment_def demo_retrieve_def numeral_3_eq_3 Let_def)

end
